theory Spec2Isabelle
  imports Complex_Main "HOL-Library.AList"
begin

section \<open>Common modelling conventions\<close>

text \<open>
  Python \<open>datetime\<close> values are integers counting microseconds, a \<open>timedelta\<close> is a
  difference of two of them. Python floats are modelled by real numbers: the code only
  averages them and compares them with the constants 20, 30, 70 and 80 (the value NaN,
  on which every comparison is false, is not modelled). Job counts are numbers of objects
  in a bucket, far below \<open>2^53\<close>, where the float quotient of a count by 100 truncates
  to the same integer as the exact quotient. A finished subprocess is its
  return code and its standard output; \<open>ProcRaised\<close> stands for every exception of
  \<open>subprocess.run\<close> (missing binary, timeout).
\<close>

type_synonym datetime = int

definition timedelta_seconds :: "int \<Rightarrow> int" where
  "timedelta_seconds s = s * 1000000"

datatype proc_result = ProcRaised | Completed int string

text \<open>\<open>int(x)\<close> on a float truncates towards zero.\<close>

definition py_int :: "real \<Rightarrow> int" where
  "py_int x = (if 0 \<le> x then \<lfloor>x\<rfloor> else \<lceil>x\<rceil>)"

text \<open>\<open>str.strip()\<close>, \<open>str.split\<close>, \<open>str.endswith\<close> and prefix matching on ASCII text.\<close>

definition is_space :: "char \<Rightarrow> bool" where
  "is_space c = (let n = (of_char c :: nat) in n = 32 \<or> (9 \<le> n \<and> n \<le> 13) \<or> (28 \<le> n \<and> n \<le> 31))"

definition strip :: "string \<Rightarrow> string" where
  "strip s = rev (dropWhile is_space (rev (dropWhile is_space s)))"

fun split_on :: "char \<Rightarrow> string \<Rightarrow> string list" where
  "split_on d [] = [[]]"
| "split_on d (c # cs) =
     (if c = d then [] # split_on d cs
      else (case split_on d cs of [] \<Rightarrow> [[c]] | l # ls \<Rightarrow> (c # l) # ls))"

definition split_nl :: "string \<Rightarrow> string list" where
  "split_nl s = split_on (CHR 0x0A) s"

definition endswith :: "string \<Rightarrow> string \<Rightarrow> bool" where
  "endswith s suf = (length suf \<le> length s \<and> drop (length s - length suf) s = suf)"

definition startswith :: "string \<Rightarrow> string \<Rightarrow> bool" where
  "startswith s pre = (take (length pre) s = pre)"

text \<open>
  The comprehension \<open>[float(x.strip()) for x in out.strip().split('\n') if x.strip()]\<close>.
  The builtin \<open>float\<close> is the parameter \<open>pf\<close> (\<open>None\<close> where it raises ValueError);
  the comprehension raises as soon as one line does, which is the result \<open>None\<close>.
\<close>

definition parse_utilizations :: "(string \<Rightarrow> real option) \<Rightarrow> string \<Rightarrow> real list option" where
  "parse_utilizations pf out =
     those (map (\<lambda>x. pf (strip x)) (filter (\<lambda>x. strip x \<noteq> []) (split_nl (strip out))))"

section \<open>autoscaler.py\<close>

definition SCALE_DOWN_DELAY :: int where "SCALE_DOWN_DELAY = 600"
definition MIN_INSTANCES :: int where "MIN_INSTANCES = 1"
definition MAX_INSTANCES :: int where "MAX_INSTANCES = 20"
definition JOBS_PER_GPU :: int where "JOBS_PER_GPU = 200"
definition GPU_EFFICIENCY :: real where "GPU_EFFICIENCY = 0.5"

subsection \<open>MIGController\<close>

text \<open>
  The managed instance group behind the \<open>gcloud\<close> command line: its size, the outcome
  of the coming \<open>gcloud\<close> calls (\<open>True\<close>: the call fails; none left: it succeeds) and
  the list of sizes asked for so far, which no code reads.
\<close>

record mig =
  mig_size :: int
  mig_faults :: "bool list"
  resize_requests :: "int list"

definition mig_next_fault :: "mig \<Rightarrow> bool \<times> mig" where
  "mig_next_fault g =
     (case mig_faults g of [] \<Rightarrow> (False, g) | f # fs \<Rightarrow> (f, g\<lparr>mig_faults := fs\<rparr>))"

definition get_current_size :: "mig \<Rightarrow> int \<times> mig" where
  "get_current_size g = (case mig_next_fault g of (f, g') \<Rightarrow> (if f then 0 else mig_size g', g'))"

definition resize_mig :: "int \<Rightarrow> mig \<Rightarrow> bool \<times> mig" where
  "resize_mig new_size g =
     (case get_current_size g of (logged, g1) \<Rightarrow>
        (case mig_next_fault g1 of (f, g2) \<Rightarrow>
           (if f then (False, g2)
            else (True, g2\<lparr>mig_size := new_size, resize_requests := resize_requests g2 @ [new_size]\<rparr>))))"

text \<open>
  One pass of the loop over the instances in \<open>get_gpu_utilization\<close>: the mean of the
  instance's GPUs, or nothing when the ssh call raises, returns non-zero, prints no
  value or prints a line that \<open>float\<close> rejects.
\<close>

definition instance_utilization :: "(string \<Rightarrow> real option) \<Rightarrow> proc_result \<Rightarrow> real option" where
  "instance_utilization pf r =
     (case r of
        ProcRaised \<Rightarrow> None
      | Completed rc out \<Rightarrow>
          (if rc = 0 then
             (case parse_utilizations pf out of
                None \<Rightarrow> None
              | Some utilizations \<Rightarrow>
                  (if utilizations \<noteq> [] then Some (sum_list utilizations / real (length utilizations))
                   else None))
           else None))"

fun instances_loop ::
  "(string \<Rightarrow> real option) \<Rightarrow> (string \<Rightarrow> proc_result) \<Rightarrow> string list \<Rightarrow> real \<times> nat \<Rightarrow> real \<times> nat" where
  "instances_loop pf ssh [] acc = acc"
| "instances_loop pf ssh (instance # rest) (total_util, valid_instances) =
     (case instance_utilization pf (ssh instance) of
        None \<Rightarrow> instances_loop pf ssh rest (total_util, valid_instances)
      | Some u \<Rightarrow> instances_loop pf ssh rest (total_util + u, Suc valid_instances))"

definition mig_get_gpu_utilization ::
  "(string \<Rightarrow> real option) \<Rightarrow> proc_result \<Rightarrow> (string \<Rightarrow> proc_result) \<Rightarrow> real" where
  "mig_get_gpu_utilization pf listing ssh =
     (case listing of
        ProcRaised \<Rightarrow> 0
      | Completed rc out \<Rightarrow>
          (if rc \<noteq> 0 then 0
           else
             (let instances = filter (\<lambda>l. l \<noteq> []) (map strip (split_nl (strip out)))
              in if instances = [] then 0
                 else
                   (case instances_loop pf ssh instances (0, 0) of
                      (total_util, valid_instances) \<Rightarrow>
                        (if valid_instances > 0 then total_util / real valid_instances else 0)))))"

subsection \<open>IntelligentAutoscaler\<close>

record autoscaler =
  last_scale_up :: "datetime option"
  last_scale_down :: "datetime option"

definition calculate_desired_instances :: "autoscaler \<Rightarrow> datetime \<Rightarrow> int \<Rightarrow> real \<Rightarrow> int" where
  "calculate_desired_instances a now pending_jobs gpu_util =
     (let base_instances = max 0 (py_int (real_of_int pending_jobs / (real_of_int JOBS_PER_GPU * GPU_EFFICIENCY)));
          desired = max MIN_INSTANCES (min MAX_INSTANCES base_instances)
      in if pending_jobs < 5 \<and> gpu_util < 30 then
           (if (case last_scale_down a of
                  None \<Rightarrow> True
                | Some t \<Rightarrow> now - t > timedelta_seconds SCALE_DOWN_DELAY)
            then min desired 1 else desired)
         else desired)"

definition should_scale :: "int \<Rightarrow> int \<Rightarrow> real \<Rightarrow> bool" where
  "should_scale current desired gpu_util =
     (if \<bar>current - desired\<bar> \<ge> 2 then True
      else if gpu_util > 80 \<and> desired > current then True
      else if gpu_util < 20 \<and> desired < current then True
      else False)"

definition execute_scaling :: "datetime \<Rightarrow> int \<Rightarrow> autoscaler \<Rightarrow> mig \<Rightarrow> bool \<times> autoscaler \<times> mig" where
  "execute_scaling now desired_instances a g =
     (case get_current_size g of (current_size, g1) \<Rightarrow>
        (if current_size = desired_instances then (True, a, g1)
         else if desired_instances > current_size then
           (case resize_mig desired_instances g1 of (success, g2) \<Rightarrow>
              (success, if success then a\<lparr>last_scale_up := Some now\<rparr> else a, g2))
         else
           (case resize_mig desired_instances g1 of (success, g2) \<Rightarrow>
              (success, if success then a\<lparr>last_scale_down := Some now\<rparr> else a, g2))))"

record job_counts =
  cnt_pending :: int
  cnt_running :: int
  cnt_completed :: int
  cnt_failed :: int

record scaling_metrics =
  pending_jobs :: int
  running_jobs :: int
  completed_jobs :: int
  failed_jobs :: int
  current_instances :: int
  desired_instances :: int
  gpu_utilization :: real
  m_last_scale_up :: "datetime option"
  m_last_scale_down :: "datetime option"

text \<open>
  One scaling cycle. \<open>counts\<close> is what \<open>get_job_counts\<close> returned, \<open>listing\<close> and
  \<open>ssh\<close> are the outcomes of the telemetry subprocesses, \<open>now\<close> the clock.
\<close>

definition run_scaling_cycle ::
  "(string \<Rightarrow> real option) \<Rightarrow> job_counts \<Rightarrow> proc_result \<Rightarrow> (string \<Rightarrow> proc_result) \<Rightarrow> datetime \<Rightarrow>
   autoscaler \<Rightarrow> mig \<Rightarrow> scaling_metrics \<times> autoscaler \<times> mig" where
  "run_scaling_cycle pf counts listing ssh now a g =
     (case get_current_size g of (current, g1) \<Rightarrow>
        (let gpu = mig_get_gpu_utilization pf listing ssh;
             desired = calculate_desired_instances a now (cnt_pending counts) gpu;
             (a', g') = (if should_scale current desired gpu
                         then (case execute_scaling now desired a g1 of (ok, a2, g2) \<Rightarrow> (a2, g2))
                         else (a, g1))
         in (\<lparr>pending_jobs = cnt_pending counts, running_jobs = cnt_running counts,
              completed_jobs = cnt_completed counts, failed_jobs = cnt_failed counts,
              current_instances = current, desired_instances = desired,
              gpu_utilization = gpu,
              m_last_scale_up = last_scale_up a', m_last_scale_down = last_scale_down a'\<rparr>,
             a', g')))"


section \<open>cloud_worker.py\<close>

definition JOBS_PREFIX :: string where "JOBS_PREFIX = ''jobs''"
definition FINAL_VIDEOS_PREFIX :: string where "FINAL_VIDEOS_PREFIX = ''final_videos''"
definition LEASE_RENEWAL_INTERVAL :: int where "LEASE_RENEWAL_INTERVAL = 60"
definition MAX_PARALLEL_FFMPEG :: nat where "MAX_PARALLEL_FFMPEG = 3"
definition GPU_UTILIZATION_THRESHOLD :: real where "GPU_UTILIZATION_THRESHOLD = 70"

subsection \<open>The bucket\<close>

text \<open>
  A JSON object is an association list in insertion order, as a Python dict is; timestamps
  stay \<open>datetime\<close> values instead of their ISO text, and \<open>json.dumps\<close> followed by
  \<open>json.loads\<close> is taken to be the identity. A blob is a JSON object or anything else
  (\<open>RawBlob\<close>: media, or text on which \<open>json.loads\<close> or \<open>.get\<close> raises).
\<close>

datatype error = PreconditionFailed | NotFound | TransientError | ValueError | TypeError | AttributeError

datatype jval = JStr string | JInt int | JReal real | JTime datetime | JErr error | JNull

type_synonym dict = "(string \<times> jval) list"

datatype blob = JsonBlob dict | RawBlob string

text \<open>
  The bucket is the list of its objects, in listing order, with the outcome of the coming
  requests: the head of \<open>faults\<close> is \<open>Some e\<close> when the next request raises \<open>e\<close>
  whatever the bucket holds, and a request after the end of the list meets no such
  failure.
\<close>

record store =
  blobs :: "(string \<times> blob) list"
  faults :: "error option list"

definition next_fault :: "store \<Rightarrow> error option \<times> store" where
  "next_fault s = (case faults s of [] \<Rightarrow> (None, s) | f # fs \<Rightarrow> (f, s\<lparr>faults := fs\<rparr>))"

text \<open>\<open>blob.upload_from_string(data)\<close>: an unconditional overwrite.\<close>

definition upload_from_string :: "string \<Rightarrow> blob \<Rightarrow> store \<Rightarrow> (error + unit) \<times> store" where
  "upload_from_string path data s =
     (case next_fault s of
        (Some e, s') \<Rightarrow> (Inl e, s')
      | (None, s') \<Rightarrow> (Inr (), s'\<lparr>blobs := AList.update path data (blobs s')\<rparr>))"

text \<open>\<open>blob.upload_from_string(data, if_generation_match=0)\<close>: create only.\<close>

definition upload_if_generation_match_0 :: "string \<Rightarrow> blob \<Rightarrow> store \<Rightarrow> (error + unit) \<times> store" where
  "upload_if_generation_match_0 path data s =
     (case next_fault s of
        (Some e, s') \<Rightarrow> (Inl e, s')
      | (None, s') \<Rightarrow>
          (case map_of (blobs s') path of
             Some b \<Rightarrow> (Inl PreconditionFailed, s')
           | None \<Rightarrow> (Inr (), s'\<lparr>blobs := AList.update path data (blobs s')\<rparr>)))"

text \<open>
  \<open>blob.delete(ignore_generation=True)\<close>: the object is removed. Deleting an absent
  object is taken to succeed, as the object store of the specification does (section 6,
  idempotent delete); the theorems about claims below release leases that are there.
\<close>

definition delete_blob :: "string \<Rightarrow> store \<Rightarrow> (error + unit) \<times> store" where
  "delete_blob path s =
     (case next_fault s of
        (Some e, s') \<Rightarrow> (Inl e, s')
      | (None, s') \<Rightarrow> (Inr (), s'\<lparr>blobs := AList.delete path (blobs s')\<rparr>))"

definition download_as_text :: "string \<Rightarrow> store \<Rightarrow> (error + blob) \<times> store" where
  "download_as_text path s =
     (case next_fault s of
        (Some e, s') \<Rightarrow> (Inl e, s')
      | (None, s') \<Rightarrow>
          (case map_of (blobs s') path of
             None \<Rightarrow> (Inl NotFound, s')
           | Some b \<Rightarrow> (Inr b, s')))"

definition list_blobs :: "string \<Rightarrow> store \<Rightarrow> (error + string list) \<times> store" where
  "list_blobs pre s =
     (case next_fault s of
        (Some e, s') \<Rightarrow> (Inl e, s')
      | (None, s') \<Rightarrow> (Inr (filter (\<lambda>name. startswith name pre) (map fst (blobs s'))), s'))"

text \<open>\<open>d.update({k1: v1, ...})\<close> keeps the place of a key that is there and appends a new one.\<close>

definition dict_update :: "dict \<Rightarrow> dict \<Rightarrow> dict" where
  "dict_update d new = fold (\<lambda>(k, v). AList.update k v) new d"

subsection \<open>JobInfo and GCSJobLeaser\<close>

record job_info =
  job_id :: string
  channel :: string
  status :: string
  lease_expiry :: "datetime option"
  metadata :: "dict option"

record leaser =
  current_job :: "job_info option"
  shutdown_event :: bool


definition job_dir :: "job_info \<Rightarrow> string" where
  "job_dir job = JOBS_PREFIX @ ''/'' @ channel job @ ''/'' @ job_id job"

definition lease_path :: "job_info \<Rightarrow> string" where
  "lease_path job = job_dir job @ ''/lease.lock''"

definition status_path :: "job_info \<Rightarrow> string" where
  "status_path job = job_dir job @ ''/status.json''"

text \<open>
  \<open>status_data = job.metadata or {}\<close> followed by \<open>status_data.update(...)\<close>: the
  update is made in place, so it shows through \<open>job.metadata\<close> unless that was None or
  empty (then \<open>status_data\<close> is a fresh dict).
\<close>

definition metadata_or_empty :: "job_info \<Rightarrow> dict" where
  "metadata_or_empty job = (case metadata job of None \<Rightarrow> [] | Some d \<Rightarrow> d)"

definition alias_metadata :: "job_info \<Rightarrow> dict \<Rightarrow> job_info" where
  "alias_metadata job status_data =
     (case metadata job of
        None \<Rightarrow> job
      | Some d \<Rightarrow> (if d = [] then job else job\<lparr>metadata := Some status_data\<rparr>))"



text \<open>
  \<open>claim_job\<close> makes two requests: the create-only write of the lease, then the
  overwrite of the status object. They are two functions here so that the requests of
  several workers can be interleaved. One clock reading \<open>now\<close> stands for the
  \<open>utcnow()\<close> calls of one invocation. A job object changed by a failed attempt is
  dropped: its caller never looks at it again.
\<close>

definition claim_lease :: "string \<Rightarrow> datetime \<Rightarrow> job_info \<Rightarrow> store \<Rightarrow> (error + unit) \<times> store" where
  "claim_lease worker_id now job s =
     upload_if_generation_match_0 (lease_path job)
       (JsonBlob [(''worker_id'', JStr worker_id), (''claimed_at'', JTime now),
                  (''expires_at'', JTime (now + timedelta_seconds (LEASE_RENEWAL_INTERVAL * 2)))]) s"

definition claim_status :: "string \<Rightarrow> datetime \<Rightarrow> job_info \<Rightarrow> store \<Rightarrow> (error + job_info) \<times> store" where
  "claim_status worker_id now job s =
     (let status_data = dict_update (metadata_or_empty job)
            [(''status'', JStr ''running''), (''worker_id'', JStr worker_id), (''started_at'', JTime now)]
      in case upload_from_string (status_path job) (JsonBlob status_data) s of
           (Inl e, s') \<Rightarrow> (Inl e, s')
         | (Inr u, s') \<Rightarrow>
             (Inr ((alias_metadata job status_data)
                     \<lparr>status := ''running'',
                      lease_expiry := Some (now + timedelta_seconds (LEASE_RENEWAL_INTERVAL * 2))\<rparr>), s'))"

definition claim_job :: "string \<Rightarrow> datetime \<Rightarrow> job_info \<Rightarrow> leaser \<Rightarrow> store \<Rightarrow> bool \<times> leaser \<times> store" where
  "claim_job worker_id now job L s =
     (case claim_lease worker_id now job s of
        (Inl e, s1) \<Rightarrow> (False, L, s1)
      | (Inr u, s1) \<Rightarrow>
          (case claim_status worker_id now job s1 of
             (Inl e, s2) \<Rightarrow> (False, L, s2)
           | (Inr job', s2) \<Rightarrow> (True, L\<lparr>current_job := Some job'\<rparr>, s2)))"


definition release_job :: "leaser \<Rightarrow> store \<Rightarrow> leaser \<times> store" where
  "release_job L s =
     (case current_job L of
        None \<Rightarrow> (L, s)
      | Some job \<Rightarrow>
          (case delete_blob (lease_path job) s of
             (Inl e, s1) \<Rightarrow> (L, s1)
           | (Inr u, s1) \<Rightarrow>
               (let status_data = dict_update (metadata_or_empty job)
                      [(''status'', JStr ''pending''), (''worker_id'', JNull), (''started_at'', JNull)]
                in case upload_from_string (status_path job) (JsonBlob status_data) s1 of
                     (Inl e, s2) \<Rightarrow> (L\<lparr>current_job := Some (alias_metadata job status_data)\<rparr>, s2)
                   | (Inr v, s2) \<Rightarrow> (L\<lparr>current_job := None\<rparr>, s2))))"




subsection \<open>Workers racing for one job\<close>

text \<open>
  Several workers run \<open>claim_job\<close> on the same job at once. Each request to the bucket is
  atomic, so an execution is an interleaving of the workers' requests: a schedule names,
  step by step, the worker whose next request is served. \<open>status_writes\<close> records who
  overwrote the status object, in order; \<open>clock w\<close> is worker \<open>w\<close>'s own clock.
\<close>

datatype claim_pc = Ready | LeaseCreated | Returned bool

record race =
  race_store :: store
  pcs :: "string \<Rightarrow> claim_pc"
  status_writes :: "string list"


definition claim_step :: "(string \<Rightarrow> datetime) \<Rightarrow> job_info \<Rightarrow> string \<Rightarrow> race \<Rightarrow> race" where
  "claim_step clock job w r =
     (case pcs r w of
        Ready \<Rightarrow>
          (case claim_lease w (clock w) job (race_store r) of
             (Inl e, s') \<Rightarrow> r\<lparr>race_store := s', pcs := (pcs r)(w := Returned False)\<rparr>
           | (Inr u, s') \<Rightarrow> r\<lparr>race_store := s', pcs := (pcs r)(w := LeaseCreated)\<rparr>)
      | LeaseCreated \<Rightarrow>
          (case claim_status w (clock w) job (race_store r) of
             (Inl e, s') \<Rightarrow> r\<lparr>race_store := s', pcs := (pcs r)(w := Returned False)\<rparr>
           | (Inr job', s') \<Rightarrow>
               r\<lparr>race_store := s', pcs := (pcs r)(w := Returned True),
                 status_writes := status_writes r @ [w]\<rparr>)
      | Returned b \<Rightarrow> r)"


subsection \<open>GPUWorker\<close>

text \<open>
  \<open>render_video_job\<close> reads \<open>self.bucket\<close> and \<open>self.client\<close>. \<open>GPUWorker.__init__\<close>
  sets \<open>job_leaser\<close>, \<open>shutdown_event\<close> and \<open>active_processes\<close> only (the bucket and
  the client belong to the \<open>GCSJobLeaser\<close>), and no other code of the repository sets
  them, so the lookup raises AttributeError on a worker made by the constructor.
  \<open>bucket_attrs\<close> tells whether the worker object carries the two attributes. A tracked
  process is the truth value of \<open>p.poll() is None\<close>. The shutdown event, which a
  signal handler sets, is read through \<open>sd\<close>: \<open>sd t\<close> holds when the event is set
  at time \<open>t\<close>.
\<close>

record gpu_worker =
  active_processes :: "bool list"
  bucket_attrs :: bool

definition GPUWorker_init :: gpu_worker where
  "GPUWorker_init = \<lparr>active_processes = [], bucket_attrs = False\<rparr>"

definition get_gpu_utilization :: "(string \<Rightarrow> real option) \<Rightarrow> proc_result \<Rightarrow> real" where
  "get_gpu_utilization pf r =
     (case r of
        ProcRaised \<Rightarrow> 0
      | Completed rc out \<Rightarrow>
          (if rc = 0 then
             (case parse_utilizations pf out of
                None \<Rightarrow> 0
              | Some utilizations \<Rightarrow>
                  (if utilizations \<noteq> [] then sum_list utilizations / real (length utilizations) else 0))
           else 0))"

definition can_add_parallel_process :: "(string \<Rightarrow> real option) \<Rightarrow> proc_result \<Rightarrow> gpu_worker \<Rightarrow> bool" where
  "can_add_parallel_process pf smi w =
     (let gpu_util = get_gpu_utilization pf smi;
          active_count = length (filter (\<lambda>p. p) (active_processes w))
      in gpu_util < GPU_UTILIZATION_THRESHOLD \<and> active_count < MAX_PARALLEL_FFMPEG)"


text \<open>The format \<open>f"clip_{i:03d}.mp4"\<close>: decimal digits, padded with zeros to three.\<close>

fun decimal :: "nat \<Rightarrow> string" where
  "decimal n = (if n < 10 then [char_of (48 + n)] else decimal (n div 10) @ [char_of (48 + n mod 10)])"

declare decimal.simps [simp del]

definition format_03d :: "nat \<Rightarrow> string" where
  "format_03d i = replicate (3 - length (decimal i)) (CHR ''0'') @ decimal i"

definition clip_name :: "nat \<Rightarrow> string" where
  "clip_name i = ''clip_'' @ format_03d i @ ''.mp4''"

definition existing_clip_names :: "string list \<Rightarrow> string list" where
  "existing_clip_names names =
     map (\<lambda>name. last (split_on (CHR ''/'') name)) (filter (\<lambda>name. endswith name ''.mp4'') names)"

text \<open>
  The loop \<open>for i in range(total_clips)\<close> over the indices still to visit. It returns how
  it ended, the clock, the units whose rendering it started with their start times (the
  code only logs and sleeps two seconds there) and the bucket.
\<close>

datatype loop_exit = LoopDone | LoopShutdown | LoopRaised error

fun render_clips ::
  "(datetime \<Rightarrow> bool) \<Rightarrow> string \<Rightarrow> string list \<Rightarrow> int \<Rightarrow> nat list \<Rightarrow> datetime \<Rightarrow> store \<Rightarrow>
   loop_exit \<times> datetime \<times> (nat \<times> datetime) list \<times> store" where
  "render_clips sd dir existing_clips total_clips [] now s = (LoopDone, now, [], s)"
| "render_clips sd dir existing_clips total_clips (i # rest) now s =
     (if sd now then (LoopShutdown, now, [], s)
      else if clip_name i \<notin> set existing_clips then
        (let now' = now + timedelta_seconds 2
         in case upload_from_string (dir @ ''/progress.json'')
                   (JsonBlob [(''completed_clips'', JInt (int i + 1)), (''total_clips'', JInt total_clips),
                              (''last_updated'', JTime now')]) s of
              (Inl e, s') \<Rightarrow> (LoopRaised e, now', [(i, now)], s')
            | (Inr u, s') \<Rightarrow>
                (case render_clips sd dir existing_clips total_clips rest now' s' of
                   (ex, t, started_units, s'') \<Rightarrow> (ex, t, (i, now) # started_units, s'')))
      else render_clips sd dir existing_clips total_clips rest now s)"

record render_result =
  returned :: bool
  started :: "(nat \<times> datetime) list"
  job_after :: job_info
  store_after :: store
  clock_after :: datetime

text \<open>The handler \<open>except Exception as e\<close> of \<open>render_video_job\<close>, once \<open>self.bucket\<close> is there.\<close>

definition render_failed :: "datetime \<Rightarrow> job_info \<Rightarrow> error \<Rightarrow> (nat \<times> datetime) list \<Rightarrow> store \<Rightarrow> render_result" where
  "render_failed t job e st s =
     (let status_data = dict_update (metadata_or_empty job)
            [(''status'', JStr ''failed''), (''error'', JErr e), (''failed_at'', JTime t)]
      in case upload_from_string (status_path job) (JsonBlob status_data) s of
           (r, s') \<Rightarrow>
             \<lparr>returned = False, started = st, job_after = alias_metadata job status_data,
              store_after = s', clock_after = t\<rparr>)"

text \<open>\<open>render_video_job\<close> from \<open>total_clips = config.get("total_questions", 1)\<close> on.\<close>

definition render_from_config ::
  "(string \<Rightarrow> real option) \<Rightarrow> proc_result \<Rightarrow> (datetime \<Rightarrow> bool) \<Rightarrow> string \<Rightarrow> datetime \<Rightarrow> job_info \<Rightarrow>
   dict \<Rightarrow> string list \<Rightarrow> store \<Rightarrow> render_result" where
  "render_from_config pf smi sd worker_id now job config existing_clips s =
     (case (case map_of config ''total_questions'' of
              None \<Rightarrow> Inr 1
            | Some (JInt n) \<Rightarrow> Inr n
            | Some v \<Rightarrow> Inl TypeError) of
        Inl e \<Rightarrow> render_failed now job e [] s
      | Inr total_clips \<Rightarrow>
          (case render_clips sd (job_dir job) existing_clips total_clips [0..<nat total_clips] now s of
             (LoopShutdown, t, st, s1) \<Rightarrow>
               \<lparr>returned = False, started = st, job_after = job, store_after = s1, clock_after = t\<rparr>
           | (LoopRaised e, t, st, s1) \<Rightarrow> render_failed t job e st s1
           | (LoopDone, t, st, s1) \<Rightarrow>
               (let t' = t + timedelta_seconds 5;
                    manifest_data =
                      [(''job_id'', JStr (job_id job)), (''channel'', JStr (channel job)),
                       (''completed_at'', JTime t'), (''total_clips'', JInt total_clips),
                       (''worker_id'', JStr worker_id),
                       (''gpu_utilization'', JReal (get_gpu_utilization pf smi)),
                       (''processing_time'', JStr ''00:05:00'')]
                in case upload_from_string (job_dir job @ ''/_MANIFEST.json'') (JsonBlob manifest_data) s1 of
                     (Inl e, s2) \<Rightarrow> render_failed t' job e st s2
                   | (Inr u, s2) \<Rightarrow>
                       (let status_data = dict_update (metadata_or_empty job)
                              [(''status'', JStr ''completed''), (''completed_at'', JTime t'),
                               (''final_video_path'',
                                JStr (FINAL_VIDEOS_PREFIX @ ''/'' @ channel job @ ''/'' @ job_id job @ ''.mp4''))];
                            job1 = alias_metadata job status_data
                        in case upload_from_string (status_path job) (JsonBlob status_data) s2 of
                             (Inl e, s3) \<Rightarrow> render_failed t' job1 e st s3
                           | (Inr v, s3) \<Rightarrow>
                               \<lparr>returned = True, started = st, job_after = job1, store_after = s3,
                                clock_after = t'\<rparr>))))"

definition render_video_job ::
  "(string \<Rightarrow> real option) \<Rightarrow> proc_result \<Rightarrow> (datetime \<Rightarrow> bool) \<Rightarrow> string \<Rightarrow> datetime \<Rightarrow> gpu_worker \<Rightarrow>
   job_info \<Rightarrow> store \<Rightarrow> render_result" where
  "render_video_job pf smi sd worker_id now w job s =
     (if \<not> bucket_attrs w then
        \<lparr>returned = False, started = [], job_after = job, store_after = s, clock_after = now\<rparr>
      else
        (case download_as_text (job_dir job @ ''/config.json'') s of
           (Inl e, s1) \<Rightarrow> render_failed now job e [] s1
         | (Inr (RawBlob t), s1) \<Rightarrow> render_failed now job ValueError [] s1
         | (Inr (JsonBlob config), s1) \<Rightarrow>
             (case list_blobs (job_dir job @ ''/clips/'') s1 of
                (Inl e, s2) \<Rightarrow>
                  (if e = NotFound then render_from_config pf smi sd worker_id now job config [] s2
                   else render_failed now job e [] s2)
              | (Inr names, s2) \<Rightarrow>
                  render_from_config pf smi sd worker_id now job config (existing_clip_names names) s2)))"







section \<open>Notions of the specification\<close>

text \<open>
  The scaling policy as section 4.4 of the specification writes it, with the thresholds of
  the code (fewer than 5 pending jobs, utilization below 30) and the ceiling of the
  quotient; it is compared with \<open>calculate_desired_instances\<close> below.
\<close>

definition compute_desired_spec :: "autoscaler \<Rightarrow> datetime \<Rightarrow> int \<Rightarrow> real \<Rightarrow> int" where
  "compute_desired_spec a now pending util =
     (let base = \<lceil>real_of_int pending / (real_of_int JOBS_PER_GPU * GPU_EFFICIENCY)\<rceil>;
          desired = max MIN_INSTANCES (min MAX_INSTANCES base)
      in if pending < 5 \<and> util < 30 then
           (if (case last_scale_down a of
                  None \<Rightarrow> True
                | Some t \<Rightarrow> now - t > timedelta_seconds SCALE_DOWN_DELAY)
            then min desired MIN_INSTANCES else desired)
         else desired)"

text \<open>
  A telemetry query has failed when its subprocess raised (error, timeout), returned a
  non-zero code, printed a line that \<open>float\<close> rejects or printed no value. The fleet's
  telemetry has failed when the listing of the instances raised or returned a non-zero
  code, or when the query of every listed instance failed (also when none is listed).
\<close>

definition query_failed :: "(string \<Rightarrow> real option) \<Rightarrow> proc_result \<Rightarrow> bool" where
  "query_failed pf r =
     (case r of
        ProcRaised \<Rightarrow> True
      | Completed rc out \<Rightarrow>
          rc \<noteq> 0 \<or> parse_utilizations pf out = None \<or> parse_utilizations pf out = Some [])"

definition fleet_query_failed ::
  "(string \<Rightarrow> real option) \<Rightarrow> proc_result \<Rightarrow> (string \<Rightarrow> proc_result) \<Rightarrow> bool" where
  "fleet_query_failed pf listing ssh =
     (case listing of
        ProcRaised \<Rightarrow> True
      | Completed rc out \<Rightarrow>
          rc \<noteq> 0 \<or>
          list_all (\<lambda>instance. query_failed pf (ssh instance))
            (filter (\<lambda>l. l \<noteq> []) (map strip (split_nl (strip out)))))"



section \<open>The scaling policy\<close>

lemma divisor_100: "real_of_int JOBS_PER_GPU * GPU_EFFICIENCY = 100"
  by (simp add: JOBS_PER_GPU_def GPU_EFFICIENCY_def)

lemma floor_div_100: "\<lfloor>real_of_int p / 100\<rfloor> = p div 100"
  using floor_divide_of_int_eq [of p 100, where ?'a = real] by simp

lemma py_int_quotient:
  "max 0 (py_int (real_of_int p / (real_of_int JOBS_PER_GPU * GPU_EFFICIENCY))) = max 0 (p div 100)"
proof (cases "0 \<le> p")
  case True
  then have "py_int (real_of_int p / 100) = p div 100"
    unfolding py_int_def by (simp add: floor_div_100)
  then show ?thesis unfolding divisor_100 by simp
next
  case False
  then have neg: "real_of_int p / 100 < 0" by simp
  then have "py_int (real_of_int p / 100) = \<lceil>real_of_int p / 100\<rceil>"
    unfolding py_int_def by simp
  moreover have "\<lceil>real_of_int p / 100\<rceil> \<le> 0"
    using neg by (simp add: ceiling_le_iff)
  moreover have "p div 100 \<le> 0" using False by simp
  ultimately show ?thesis unfolding divisor_100 by simp
qed

lemma floor_quotient: "\<lfloor>real_of_int p / (real_of_int JOBS_PER_GPU * GPU_EFFICIENCY)\<rfloor> = p div 100"
  unfolding divisor_100 by (rule floor_div_100)

text \<open>
  The branch for a nearly empty queue changes nothing: with fewer than 5 pending jobs the
  bounded value is 1 already. So the result depends on the pending count alone.
\<close>

lemma calculate_desired_instances_closed:
  "calculate_desired_instances a now p u = max 1 (min 20 (p div 100))"
proof -
  have "p < 5 \<Longrightarrow> max 1 (min 20 (max 0 (p div 100))) = (1::int)"
    by simp
  moreover have "max (1::int) (min 20 (max 0 (p div 100))) = max 1 (min 20 (p div 100))"
    by linarith
  ultimately show ?thesis
    unfolding calculate_desired_instances_def Let_def py_int_quotient MIN_INSTANCES_def MAX_INSTANCES_def
    by (auto split: option.splits)
qed

text \<open>
  C5, as the claim states it, fails: for 150 pending jobs the code returns 1, where the
  ceiling of 150 / (200 * 0.5) bounded to [1, 20] is 2. The code truncates the quotient.
\<close>

theorem calculate_desired_instances_not_ceiling:
  "calculate_desired_instances \<lparr>last_scale_up = None, last_scale_down = None\<rparr> 0 150 50 = 1
   \<and> compute_desired_spec \<lparr>last_scale_up = None, last_scale_down = None\<rparr> 0 150 50 = 2"
  by (simp add: calculate_desired_instances_def compute_desired_spec_def JOBS_PER_GPU_def GPU_EFFICIENCY_def
      MIN_INSTANCES_def MAX_INSTANCES_def py_int_def)

text \<open>
  C5, amended: for every pending count, utilization, clock and cooldown stamp,
  \<open>calculate_desired_instances\<close> returns the floor (not the ceiling) of
  pending / (jobs per instance * efficiency), bounded to [MIN_INSTANCES, MAX_INSTANCES];
  the result is never below MIN_INSTANCES nor above MAX_INSTANCES, it is 1 for no pending
  job and 20 for 4000 pending jobs.
\<close>

theorem calculate_desired_instances_floor:
  "calculate_desired_instances a now pending gpu_util =
     max MIN_INSTANCES (min MAX_INSTANCES \<lfloor>real_of_int pending / (real_of_int JOBS_PER_GPU * GPU_EFFICIENCY)\<rfloor>)
   \<and> MIN_INSTANCES \<le> calculate_desired_instances a now pending gpu_util
   \<and> calculate_desired_instances a now pending gpu_util \<le> MAX_INSTANCES
   \<and> calculate_desired_instances a now 0 5 = 1
   \<and> calculate_desired_instances a now 4000 gpu_util = 20"
  unfolding floor_quotient calculate_desired_instances_closed MIN_INSTANCES_def MAX_INSTANCES_def
  by simp

text \<open>
  C6: the code scales down inside the cooldown. The last scale-down was 10 seconds ago
  (the cooldown is 600 seconds), 5 instances run, no job is pending and the fleet's
  utilization is 5: the cycle asks the instance group for size 1 and stamps
  \<open>last_scale_down\<close> anew.
\<close>

theorem scale_down_inside_cooldown:
  "run_scaling_cycle (\<lambda>x. if x = ''5'' then Some 5 else None)
     \<lparr>cnt_pending = 0, cnt_running = 0, cnt_completed = 0, cnt_failed = 0\<rparr>
     (Completed 0 ''vm-1'') (\<lambda>instance. Completed 0 ''5'')
     (timedelta_seconds 1000)
     \<lparr>last_scale_up = None, last_scale_down = Some (timedelta_seconds 990)\<rparr>
     \<lparr>mig_size = 5, mig_faults = [], resize_requests = []\<rparr>
   = (\<lparr>pending_jobs = 0, running_jobs = 0, completed_jobs = 0, failed_jobs = 0,
       current_instances = 5, desired_instances = 1, gpu_utilization = 5,
       m_last_scale_up = None, m_last_scale_down = Some (timedelta_seconds 1000)\<rparr>,
      \<lparr>last_scale_up = None, last_scale_down = Some (timedelta_seconds 1000)\<rparr>,
      \<lparr>mig_size = 1, mig_faults = [], resize_requests = [1]\<rparr>)
   \<and> timedelta_seconds 1000 - timedelta_seconds 990 < timedelta_seconds SCALE_DOWN_DELAY"
  by (simp add: run_scaling_cycle_def get_current_size_def mig_next_fault_def mig_get_gpu_utilization_def
      strip_def split_nl_def is_space_def instance_utilization_def parse_utilizations_def
      calculate_desired_instances_def should_scale_def execute_scaling_def resize_mig_def
      JOBS_PER_GPU_def GPU_EFFICIENCY_def MIN_INSTANCES_def MAX_INSTANCES_def py_int_def
      timedelta_seconds_def SCALE_DOWN_DELAY_def Let_def)

text \<open>
  C9: \<open>should_scale\<close> holds exactly when the sizes differ by 2 or more, or the utilization
  is above 80 and more instances are wanted, or it is below 20 and fewer are wanted; it is
  false for current 5, desired 6 at utilization 50 and true at utilization 85.
\<close>

theorem should_scale_iff:
  "(should_scale current desired gpu_util \<longleftrightarrow>
      \<bar>current - desired\<bar> \<ge> 2 \<or> (gpu_util > 80 \<and> desired > current) \<or> (gpu_util < 20 \<and> desired < current))
   \<and> should_scale 5 6 50 = False \<and> should_scale 5 6 85 = True"
  by (simp add: should_scale_def)

section \<open>Telemetry\<close>

lemma get_gpu_utilization_failed: "query_failed pf r \<Longrightarrow> get_gpu_utilization pf r = 0"
  by (auto simp: query_failed_def get_gpu_utilization_def split: proc_result.splits option.splits)

lemma instance_utilization_failed: "query_failed pf r \<Longrightarrow> instance_utilization pf r = None"
  by (auto simp: query_failed_def instance_utilization_def split: proc_result.splits option.splits)

lemma instances_loop_all_failed:
  "list_all (\<lambda>instance. query_failed pf (ssh instance)) instances \<Longrightarrow>
   instances_loop pf ssh instances acc = acc"
proof (induction instances arbitrary: acc)
  case Nil
  then show ?case by simp
next
  case (Cons i rest)
  obtain total_util valid_instances where acc: "acc = (total_util, valid_instances)"
    by (cases acc)
  from Cons.prems have "instance_utilization pf (ssh i) = None"
    by (simp add: instance_utilization_failed)
  moreover from Cons.prems have "list_all (\<lambda>instance. query_failed pf (ssh instance)) rest"
    by simp
  ultimately show ?case using Cons.IH acc by simp
qed

lemma mig_get_gpu_utilization_failed:
  "fleet_query_failed pf listing ssh \<Longrightarrow> mig_get_gpu_utilization pf listing ssh = 0"
  by (auto simp: fleet_query_failed_def mig_get_gpu_utilization_def Let_def instances_loop_all_failed
      split: proc_result.splits)

lemma should_scale_idle: "should_scale current desired 0 \<longleftrightarrow> \<bar>current - desired\<bar> \<ge> 2 \<or> desired < current"
  by (auto simp: should_scale_def)

text \<open>
  C10: when the worker's telemetry query fails in any way (the subprocess raises or times
  out, returns non-zero, prints nothing or prints what cannot be parsed),
  \<open>get_gpu_utilization\<close> is 0.0, which is below the threshold of the parallelism gate, so
  the gate depends on the number of running processes alone. When the fleet's telemetry
  fails (the listing fails, lists nothing, or no instance answers), the controller's
  \<open>get_gpu_utilization\<close> is 0.0, which is below both thresholds of the scaling policy and
  not above the high one, so \<open>should_scale\<close> decides as for an idle fleet. Both functions
  are total: no failure escapes them.
\<close>

theorem telemetry_outage_reads_as_idle:
  "(query_failed pf smi \<longrightarrow>
      get_gpu_utilization pf smi = 0
      \<and> get_gpu_utilization pf smi < GPU_UTILIZATION_THRESHOLD
      \<and> (can_add_parallel_process pf smi w \<longleftrightarrow>
           length (filter (\<lambda>p. p) (active_processes w)) < MAX_PARALLEL_FFMPEG))
   \<and> (fleet_query_failed pf listing ssh \<longrightarrow>
      mig_get_gpu_utilization pf listing ssh = 0
      \<and> mig_get_gpu_utilization pf listing ssh < 30
      \<and> mig_get_gpu_utilization pf listing ssh < 20
      \<and> \<not> mig_get_gpu_utilization pf listing ssh > 80
      \<and> (should_scale current desired (mig_get_gpu_utilization pf listing ssh) \<longleftrightarrow>
           \<bar>current - desired\<bar> \<ge> 2 \<or> desired < current))"
  by (simp add: get_gpu_utilization_failed mig_get_gpu_utilization_failed should_scale_idle
      can_add_parallel_process_def GPU_UTILIZATION_THRESHOLD_def)

theorem telemetry_outage_reads_as_idle_witness:
  "query_failed (\<lambda>x. if x = ''0'' then Some 0 else None) (Completed 0 ''N/A'')
   \<and> fleet_query_failed (\<lambda>x. if x = ''0'' then Some 0 else None) (Completed 0 ''vm-1'') (\<lambda>instance. ProcRaised)
   \<and> get_gpu_utilization (\<lambda>x. if x = ''0'' then Some 0 else None) (Completed 0 ''N/A'') = 0
   \<and> can_add_parallel_process (\<lambda>x. if x = ''0'' then Some 0 else None) (Completed 0 ''N/A'')
        \<lparr>active_processes = [True, False], bucket_attrs = False\<rparr>
   \<and> mig_get_gpu_utilization (\<lambda>x. if x = ''0'' then Some 0 else None) (Completed 0 ''vm-1'') (\<lambda>instance. ProcRaised) = 0
   \<and> should_scale 5 1 (mig_get_gpu_utilization (\<lambda>x. if x = ''0'' then Some 0 else None) (Completed 0 ''vm-1'')
        (\<lambda>instance. ProcRaised))"
proof -
  have a: "query_failed (\<lambda>x. if x = ''0'' then Some 0 else None) (Completed 0 ''N/A'')"
    by (simp add: query_failed_def parse_utilizations_def strip_def split_nl_def is_space_def)
  have b: "fleet_query_failed (\<lambda>x. if x = ''0'' then Some 0 else None) (Completed 0 ''vm-1'') (\<lambda>instance. ProcRaised)"
    by (simp add: fleet_query_failed_def query_failed_def list_all_iff)
  show ?thesis
    using a b
      telemetry_outage_reads_as_idle [of "\<lambda>x. if x = ''0'' then Some 0 else None" "Completed 0 ''N/A''"
        "\<lparr>active_processes = [True, False], bucket_attrs = False\<rparr>" "Completed 0 ''vm-1''"
        "\<lambda>instance. ProcRaised" 5 1]
    by (simp add: MAX_PARALLEL_FFMPEG_def should_scale_def)
qed

section \<open>Leases\<close>

lemma lease_path_neq_status_path: "lease_path job \<noteq> status_path job"
  by (simp add: lease_path_def status_path_def)

lemma next_fault_no_faults: "faults s = [] \<Longrightarrow> next_fault s = (None, s)"
  by (simp add: next_fault_def)







subsection \<open>The race\<close>









text \<open>Two steps of one worker, with nobody in between, are \<open>claim_job\<close>.\<close>

lemma claim_steps_are_claim_job:
  assumes "pcs r w = Ready"
  shows "pcs (claim_step clock job w (claim_step clock job w r)) w
           = Returned (fst (claim_job w (clock w) job L (race_store r)))
         \<and> race_store (claim_step clock job w (claim_step clock job w r))
           = snd (snd (claim_job w (clock w) job L (race_store r)))"
  using assms by (auto simp: claim_step_def claim_job_def split: prod.splits sum.splits)



section \<open>The render loop\<close>






text \<open>
  On a worker made by the constructor, \<open>render_video_job\<close> does nothing and returns
  False, whatever the job and the bucket.
\<close>

lemma render_video_job_without_bucket:
  "render_video_job pf smi sd worker_id now GPUWorker_init job s
     = \<lparr>returned = False, started = [], job_after = job, store_after = s, clock_after = now\<rparr>"
  by (simp add: render_video_job_def GPUWorker_init_def)

text \<open>
  C8: the code renders nothing on resumption. A worker made by the constructor resumes a
  job of 5 units whose clips 0, 1 and 2 are stored: \<open>render_video_job\<close> fails on
  \<open>self.bucket\<close> before it reads anything, starts no unit, writes nothing and returns
  False. Only on a worker object that carries the bucket and the client does the loop start
  the units 3 and 4.
\<close>

theorem resume_renders_nothing:
  "render_video_job (\<lambda>x. None) ProcRaised (\<lambda>t. False) ''w1'' 0 GPUWorker_init
     \<lparr>job_id = ''j1'', channel = ''ch'', status = ''running'', lease_expiry = Some 5,
      metadata = Some [(''status'', JStr ''running'')]\<rparr>
     \<lparr>blobs = [(''jobs/ch/j1/status.json'', JsonBlob [(''status'', JStr ''running'')]),
               (''jobs/ch/j1/config.json'', JsonBlob [(''total_questions'', JInt 5)]),
               (''jobs/ch/j1/clips/clip_000.mp4'', RawBlob ''''),
               (''jobs/ch/j1/clips/clip_001.mp4'', RawBlob ''''),
               (''jobs/ch/j1/clips/clip_002.mp4'', RawBlob '''')],
      faults = []\<rparr>
   = \<lparr>returned = False, started = [],
      job_after = \<lparr>job_id = ''j1'', channel = ''ch'', status = ''running'', lease_expiry = Some 5,
                   metadata = Some [(''status'', JStr ''running'')]\<rparr>,
      store_after =
        \<lparr>blobs = [(''jobs/ch/j1/status.json'', JsonBlob [(''status'', JStr ''running'')]),
                  (''jobs/ch/j1/config.json'', JsonBlob [(''total_questions'', JInt 5)]),
                  (''jobs/ch/j1/clips/clip_000.mp4'', RawBlob ''''),
                  (''jobs/ch/j1/clips/clip_001.mp4'', RawBlob ''''),
                  (''jobs/ch/j1/clips/clip_002.mp4'', RawBlob '''')],
         faults = []\<rparr>,
      clock_after = 0\<rparr>
   \<and> map fst (started (render_video_job (\<lambda>x. None) ProcRaised (\<lambda>t. False) ''w1'' 0
        \<lparr>active_processes = [], bucket_attrs = True\<rparr>
        \<lparr>job_id = ''j1'', channel = ''ch'', status = ''running'', lease_expiry = Some 5,
         metadata = Some [(''status'', JStr ''running'')]\<rparr>
        \<lparr>blobs = [(''jobs/ch/j1/status.json'', JsonBlob [(''status'', JStr ''running'')]),
                  (''jobs/ch/j1/config.json'', JsonBlob [(''total_questions'', JInt 5)]),
                  (''jobs/ch/j1/clips/clip_000.mp4'', RawBlob ''''),
                  (''jobs/ch/j1/clips/clip_001.mp4'', RawBlob ''''),
                  (''jobs/ch/j1/clips/clip_002.mp4'', RawBlob '''')],
         faults = []\<rparr>)) = [3, 4]"
  by code_simp




section \<open>Losing the lease while rendering\<close>


lemma dict_update_pending:
  "map_of (dict_update d [(''status'', JStr ''pending''), (''worker_id'', JNull), (''started_at'', JNull)]) ''status''
     = Some (JStr ''pending'')"
  by (simp add: dict_update_def update_conv')




section \<open>The main loop\<close>

text \<open>
  Whatever status the held job has reached, a release that meets no failing request leaves
  the status object at pending.
\<close>

lemma release_job_writes_pending:
  assumes "current_job L = Some job" and "faults s = []"
  shows "case release_job L s of
           (L', s') \<Rightarrow>
             current_job L' = None
             \<and> map_of (blobs s') (lease_path job) = None
             \<and> (\<exists>d. map_of (blobs s') (status_path job) = Some (JsonBlob d)
                    \<and> map_of d ''status'' = Some (JStr ''pending''))"
  using assms lease_path_neq_status_path [of job] dict_update_pending [of "metadata_or_empty job"]
  by (simp add: release_job_def delete_blob_def upload_from_string_def next_fault_no_faults Let_def
      update_conv' delete_conv')


end
